theory Spec2Isabelle
  imports Complex_Main
begin

section \<open>Text: Python strings as sequences of code points\<close>

text \<open>
  A Python \<^verbatim>\<open>str\<close> is a sequence of Unicode code points, and \<^verbatim>\<open>len\<close>,
  \<^verbatim>\<open>split\<close> and the regular expressions of \<^verbatim>\<open>utils.py\<close> all count code points.
  The model therefore takes a string to be a list of code points (natural numbers);
  \<open>u\<close> turns an ASCII literal into such a list.
\<close>

type_synonym str = "nat list"

definition u :: "string \<Rightarrow> str" where
  "u s = map of_char s"

text \<open>
  \<^verbatim>\<open>str.isspace\<close> on one code point. The regular-expression class \<^verbatim>\<open>\s\<close> on a
  \<^verbatim>\<open>str\<close> pattern and the separator of \<^verbatim>\<open>str.split()\<close> are this same predicate.
\<close>

definition isspace :: "nat \<Rightarrow> bool" where
  "isspace c \<longleftrightarrow>
     (9 \<le> c \<and> c \<le> 13) \<or> (28 \<le> c \<and> c \<le> 32) \<or> c = 133 \<or> c = 160 \<or> c = 5760 \<or>
     (8192 \<le> c \<and> c \<le> 8202) \<or> c = 8232 \<or> c = 8233 \<or> c = 8239 \<or> c = 8287 \<or> c = 12288"

text \<open>
  \<^verbatim>\<open>s.split()\<close> with no argument: the maximal runs of non-whitespace, in order, with
  no empty string among them. The first argument is the word being read.
\<close>

fun split_acc :: "str \<Rightarrow> str \<Rightarrow> str list" where
  "split_acc w [] = (if w = [] then [] else [w])"
| "split_acc w (c # cs) =
     (if isspace c then (if w = [] then split_acc [] cs else w # split_acc [] cs)
      else split_acc (w @ [c]) cs)"

definition split_ws :: "str \<Rightarrow> str list" where
  "split_ws s = split_acc [] s"

text \<open>\<^verbatim>\<open>sep.join(xs)\<close>, and \<^verbatim>\<open>' '.join(xs)\<close> as its instance.\<close>

fun join_with :: "str \<Rightarrow> str list \<Rightarrow> str" where
  "join_with sep [] = []"
| "join_with sep [x] = x"
| "join_with sep (x # y # ys) = x @ sep @ join_with sep (y # ys)"

definition join_sp :: "str list \<Rightarrow> str" where
  "join_sp xs = join_with [32] xs"

text \<open>\<^verbatim>\<open>len(s.split())\<close>, a Python \<^verbatim>\<open>int\<close>.\<close>

definition word_count :: "str \<Rightarrow> int" where
  "word_count s = int (length (split_ws s))"

section \<open>The chunker (\<^verbatim>\<open>utils.chunk_context\<close>)\<close>

text \<open>
  \<^verbatim>\<open>re.split(r'(?<=[.!?])\s+', context)\<close>: the text is cut at every maximal run of
  whitespace that directly follows \<^verbatim>\<open>.\<close>, \<^verbatim>\<open>!\<close> or \<^verbatim>\<open>?\<close>; the run is dropped and
  the pieces between the cuts are returned, the last one also when it is empty. The first
  argument is the piece being read.
\<close>

definition is_sentence_end :: "nat \<Rightarrow> bool" where
  "is_sentence_end c \<longleftrightarrow> c = 46 \<or> c = 33 \<or> c = 63"

function re_split_sentences :: "str \<Rightarrow> str \<Rightarrow> str list" where
  "re_split_sentences piece [] = [piece]"
| "re_split_sentences piece (c # cs) =
     (if is_sentence_end c \<and> (case cs of [] \<Rightarrow> False | d # _ \<Rightarrow> isspace d)
      then (piece @ [c]) # re_split_sentences [] (dropWhile isspace cs)
      else re_split_sentences (piece @ [c]) cs)"
  by pat_completeness auto
termination
  by (relation "measure (\<lambda>(piece, s). length s)")
     (auto simp: less_Suc_eq_le length_dropWhile_le)

text \<open>
  The loop of \<^verbatim>\<open>chunk_context\<close> over the sentences, with its three variables
  \<^verbatim>\<open>chunks\<close>, \<^verbatim>\<open>current_chunk\<close> and \<^verbatim>\<open>current_length\<close>; the first equation is the
  code after the loop.
\<close>

fun chunk_loop :: "int \<Rightarrow> str list \<Rightarrow> str list \<Rightarrow> str list \<Rightarrow> int \<Rightarrow> str list" where
  "chunk_loop max_chunk_size [] chunks current_chunk current_length =
     (if current_chunk \<noteq> [] then chunks @ [join_sp current_chunk] else chunks)"
| "chunk_loop max_chunk_size (sentence # sentences) chunks current_chunk current_length =
     (let sentence_length = word_count sentence in
      if current_length + sentence_length > max_chunk_size
      then chunk_loop max_chunk_size sentences
             (if current_chunk \<noteq> [] then chunks @ [join_sp current_chunk] else chunks)
             [sentence] sentence_length
      else chunk_loop max_chunk_size sentences chunks
             (current_chunk @ [sentence]) (current_length + sentence_length))"

definition chunk_context :: "str \<Rightarrow> int \<Rightarrow> str list" where
  "chunk_context context max_chunk_size =
     chunk_loop max_chunk_size (re_split_sentences [] context) [] [] 0"

text \<open>
  What the chunker promises of one chunk, seen as the list of sentences joined into it: it
  is not empty, and its words stay within the limit unless it is one sentence that is by
  itself longer than the limit.
\<close>

definition chunk_within_limit :: "int \<Rightarrow> str list \<Rightarrow> bool" where
  "chunk_within_limit max_chunk_size g \<longleftrightarrow>
     g \<noteq> [] \<and>
     (word_count (join_sp g) \<le> max_chunk_size \<or>
      (case g of [s] \<Rightarrow> max_chunk_size < word_count s | _ \<Rightarrow> False))"

section \<open>The services outside the repository\<close>

text \<open>
  \<^verbatim>\<open>utils.py\<close> calls the regular-expression engine, the Unicode database, the
  sentence-embedding model, the tensor library and the T5 model. None of them is code of
  the repository, so the model takes them as the fields of an environment and is proved
  for every environment. The room that the stack of the interpreter leaves for nested
  calls is a field of the environment too.

  The regular expressions are named after the call that uses them; each name stands for
  the pattern, the replacement and the flags of that call.
\<close>

datatype regex =
    Ws_run  \<comment> \<open>\<^verbatim>\<open>re.sub(r'\s+', ' ', text)\<close>\<close>
  | Punct_run  \<comment> \<open>\<^verbatim>\<open>re.sub(r'([.,!?])([.,!?])+', r'\1', text)\<close>\<close>
  | Dashes  \<comment> \<open>\<^verbatim>\<open>re.sub(r'[\u2010\u2011\u2012\u2013\u2014\u2015]', '-', text)\<close>\<close>
  | Curly_quotes  \<comment> \<open>\<^verbatim>\<open>re.sub(r'[\u201c\u201d]', '"', text)\<close>\<close>
  | Punct_repeat  \<comment> \<open>\<^verbatim>\<open>re.sub(r'([.,!?])\1+', r'\1', text)\<close>\<close>
  | Punct_no_space  \<comment> \<open>\<^verbatim>\<open>re.sub(r'([.,!?])([^\s])', r'\1 \2', text)\<close>\<close>
  | Id_number  \<comment> \<open>\<^verbatim>\<open>re.sub(r'ID:?\s*\d+', '', answer)\<close>\<close>
  | Objective  \<comment> \<open>\<^verbatim>\<open>re.sub(r'Objective:.*', '', answer)\<close>\<close>
  | List_marker  \<comment> \<open>\<^verbatim>\<open>re.sub(r'^\s*[-\u2022]\s*', '', answer)\<close>\<close>
  | Space_before_punct  \<comment> \<open>\<^verbatim>\<open>re.sub(r'\s+([.,!?])', r'\1', answer)\<close>\<close>
  | Adjacent_capitalised
      \<comment> \<open>\<^verbatim>\<open>re.sub(r'([A-Z][a-z]+)\s*([A-Z][a-z]+)', r'\1 \2', answer)\<close>\<close>
  | Label_prefix
      \<comment> \<open>\<^verbatim>\<open>re.sub(r'\b(ID|Submitted by|Name|Roll|Number):\s*', '', answer, flags=re.IGNORECASE)\<close>\<close>

datatype nform = NFC | NFD | NFKC | NFKD

text \<open>The exceptions that the model tells apart.\<close>

datatype py_exn = TypeError | AttributeError | ValueError string | OtherError

record ('e, 's) env =
  re_sub :: "regex \<Rightarrow> str \<Rightarrow> str"
    \<comment> \<open>\<^verbatim>\<open>re.sub\<close> on a \<^verbatim>\<open>str\<close> subject\<close>
  unicodedata_normalize :: "nform \<Rightarrow> str \<Rightarrow> str"
    \<comment> \<open>\<^verbatim>\<open>unicodedata.normalize\<close>\<close>
  unicodedata_category :: "nat \<Rightarrow> string"
    \<comment> \<open>\<^verbatim>\<open>unicodedata.category\<close>\<close>
  str_isalpha :: "nat \<Rightarrow> bool"
    \<comment> \<open>\<^verbatim>\<open>str.isalpha\<close> on one code point\<close>
  str_upper :: "nat \<Rightarrow> str"
    \<comment> \<open>\<^verbatim>\<open>str.upper\<close> on one code point (it may give several)\<close>
  str_lower :: "str \<Rightarrow> str"
    \<comment> \<open>\<^verbatim>\<open>str.lower\<close>\<close>
  embed :: "str \<Rightarrow> 'e option"
    \<comment> \<open>\<^verbatim>\<open>embedding_model.encode\<close> on one text; \<open>None\<close> when it raises\<close>
  cos_sim :: "'e \<Rightarrow> 'e \<Rightarrow> 's"
    \<comment> \<open>one entry of \<^verbatim>\<open>util.pytorch_cos_sim\<close>\<close>
  topk :: "'s list \<Rightarrow> int \<Rightarrow> nat list option"
    \<comment> \<open>the indices of \<^verbatim>\<open>torch.topk(scores, k)\<close>; \<open>None\<close> when it raises\<close>
  t5_generate :: "nat \<Rightarrow> str \<Rightarrow> str option"
    \<comment> \<open>\<^verbatim>\<open>tokenizer.encode\<close>, \<^verbatim>\<open>t5_model.generate\<close> and \<^verbatim>\<open>tokenizer.decode\<close> on a
        prompt. Decoding samples (\<^verbatim>\<open>do_sample=True\<close>), so the text depends on how many
        times the model has run before, the first argument; \<open>None\<close> when a call raises\<close>
  recursion_room :: nat
    \<comment> \<open>how many nested calls of \<^verbatim>\<open>generate_fluent_answer\<close> to itself still fit under the
        recursion limit of the interpreter (\<^verbatim>\<open>sys.getrecursionlimit()\<close>, 1000 unless it is
        changed) when \<^verbatim>\<open>ask_question\<close> calls it\<close>
  pdf_blocks :: "nat list \<Rightarrow> py_exn + str list"
    \<comment> \<open>\<^verbatim>\<open>fitz\<close> on the bytes of a file: the text of the blocks of its pages in order, or
        the exception it raises\<close>
  save_file :: "str \<Rightarrow> nat list \<Rightarrow> bool"
    \<comment> \<open>writing the upload under \<^verbatim>\<open>uploads/\<close>; \<open>False\<close> when it raises\<close>
  remove_file :: "int \<Rightarrow> bool"
    \<comment> \<open>removing the stored file of a document; \<open>False\<close> when it raises\<close>
  db_insert :: "int set \<Rightarrow> int option"
    \<comment> \<open>the key the database gives a new row, from the keys in use; \<open>None\<close> when the
        commit raises\<close>
  db_delete :: "int \<Rightarrow> bool"
    \<comment> \<open>deleting a row and committing; \<open>False\<close> when it raises\<close>

section \<open>String helpers of the standard library\<close>

text \<open>\<^verbatim>\<open>s.strip()\<close>.\<close>

definition strip :: "str \<Rightarrow> str" where
  "strip s = rev (dropWhile isspace (rev (dropWhile isspace s)))"

text \<open>\<^verbatim>\<open>s.split(sep)\<close> for a separator of one code point: empty pieces are kept.\<close>

fun split_on_acc :: "nat \<Rightarrow> str \<Rightarrow> str \<Rightarrow> str list" where
  "split_on_acc sep piece [] = [piece]"
| "split_on_acc sep piece (c # cs) =
     (if c = sep then piece # split_on_acc sep [] cs else split_on_acc sep (piece @ [c]) cs)"

definition split_on :: "nat \<Rightarrow> str \<Rightarrow> str list" where
  "split_on sep s = split_on_acc sep [] s"

text \<open>\<^verbatim>\<open>s.endswith(suffix)\<close>.\<close>

definition endswith :: "str \<Rightarrow> str \<Rightarrow> bool" where
  "endswith s suffix \<longleftrightarrow>
     length suffix \<le> length s \<and> drop (length s - length suffix) s = suffix"

section \<open>The text normalizer (\<^verbatim>\<open>utils.clean_text\<close>)\<close>

text \<open>
  The statements of the \<^verbatim>\<open>try\<close> block in their order. On a \<^verbatim>\<open>str\<close> none of them
  raises, so the handler (\<^verbatim>\<open>return text\<close>) is not a branch of the model.
\<close>

definition clean_text :: "('e, 's) env \<Rightarrow> str \<Rightarrow> str" where
  "clean_text env text =
     (let text = unicodedata_normalize env NFKD text;
          text = filter (\<lambda>c. take 1 (unicodedata_category env c) \<noteq> ''C'') text;
          text = join_sp (split_ws text);
          text = re_sub env Punct_run text;
          text = re_sub env Dashes text;
          text = re_sub env Curly_quotes text;
          text = re_sub env Punct_repeat text;
          text = re_sub env Punct_no_space text
      in strip text)"

text \<open>
  The normalizer as the specification words it: the same steps after a canonical
  decomposition followed by canonical composition (the form NFC). It is here to be
  compared with \<open>clean_text\<close>.
\<close>

definition clean_text_spec :: "('e, 's) env \<Rightarrow> str \<Rightarrow> str" where
  "clean_text_spec env text =
     (let text = unicodedata_normalize env NFC text;
          text = filter (\<lambda>c. take 1 (unicodedata_category env c) \<noteq> ''C'') text;
          text = join_sp (split_ws text);
          text = re_sub env Punct_run text;
          text = re_sub env Dashes text;
          text = re_sub env Curly_quotes text;
          text = re_sub env Punct_repeat text;
          text = re_sub env Punct_no_space text
      in strip text)"

section \<open>Post-processing (\<^verbatim>\<open>utils.post_process_answer\<close>)\<close>

text \<open>
  Python does not check the annotation \<^verbatim>\<open>answer: str\<close>, so the argument is any value.
  A statement of the \<^verbatim>\<open>try\<close> block computes on a \<^verbatim>\<open>str\<close>, and the model lets it
  raise on every other value. For the first statement that is what \<^verbatim>\<open>re.sub\<close> does: a
  subject that is neither a \<^verbatim>\<open>str\<close> nor bytes-like is a \<^verbatim>\<open>TypeError\<close>, and so is
  a bytes-like subject under a \<^verbatim>\<open>str\<close> pattern. The later statements only ever see
  the \<^verbatim>\<open>str\<close> that \<^verbatim>\<open>re.sub\<close> has returned.
\<close>

datatype pyval = PyStr str | PyNone | PyInt int | PyBytes "nat list"

definition on_str :: "py_exn \<Rightarrow> (str \<Rightarrow> str) \<Rightarrow> pyval \<Rightarrow> py_exn + pyval" where
  "on_str e f v = (case v of PyStr s \<Rightarrow> Inr (PyStr (f s)) | _ \<Rightarrow> Inl e)"

text \<open>
  The statements between the regular expressions, on a \<^verbatim>\<open>str\<close>:
  \<^verbatim>\<open>' '.join(answer.split())\<close>; the block that keeps the sentences of more than two
  words; the capital first letter; the final full stop.
\<close>

definition collapse_whitespace :: "str \<Rightarrow> str" where
  "collapse_whitespace answer = join_sp (split_ws answer)"

definition drop_fragments :: "str \<Rightarrow> str" where
  "drop_fragments answer =
     (if 46 \<in> set answer
      then (let sentences = split_on 46 answer;
                complete_sentences =
                  map strip (filter (\<lambda>s. 2 < length (split_ws (strip s))) sentences)
            in if complete_sentences \<noteq> []
               then join_with [46, 32] complete_sentences @ [46]
               else answer)
      else answer)"

definition capitalise_first :: "('e, 's) env \<Rightarrow> str \<Rightarrow> str" where
  "capitalise_first env answer =
     (case answer of
        [] \<Rightarrow> answer
      | c # rest \<Rightarrow> if str_isalpha env c then str_upper env c @ rest else answer)"

definition ensure_terminal :: "str \<Rightarrow> str" where
  "ensure_terminal answer =
     (if \<not> (endswith answer [46] \<or> endswith answer [33] \<or> endswith answer [63])
      then answer @ [46] else answer)"

text \<open>
  The \<^verbatim>\<open>try\<close> block: every statement but the last rebinds \<^verbatim>\<open>answer\<close>, and the last
  returns \<^verbatim>\<open>answer.strip()\<close>. When a statement raises, \<^verbatim>\<open>answer\<close> keeps the value
  it had before that statement; \<open>Inl\<close> carries the exception with that value.
\<close>

definition post_process_steps :: "('e, 's) env \<Rightarrow> (pyval \<Rightarrow> py_exn + pyval) list" where
  "post_process_steps env =
     [on_str TypeError (re_sub env Id_number),
      on_str TypeError (re_sub env Objective),
      on_str TypeError (re_sub env List_marker),
      on_str AttributeError collapse_whitespace,
      on_str TypeError drop_fragments,
      on_str TypeError (capitalise_first env),
      on_str AttributeError ensure_terminal,
      on_str TypeError (re_sub env Space_before_punct),
      on_str TypeError (re_sub env Adjacent_capitalised),
      on_str TypeError (re_sub env Label_prefix),
      on_str AttributeError strip]"

fun run_try :: "(pyval \<Rightarrow> py_exn + pyval) list \<Rightarrow> pyval \<Rightarrow> (py_exn \<times> pyval) + pyval" where
  "run_try [] answer = Inr answer"
| "run_try (stmt # stmts) answer =
     (case stmt answer of
        Inl e \<Rightarrow> Inl (e, answer)
      | Inr answer' \<Rightarrow> run_try stmts answer')"

text \<open>The handler is \<^verbatim>\<open>except Exception: return answer\<close>.\<close>

definition post_process_answer :: "('e, 's) env \<Rightarrow> pyval \<Rightarrow> pyval" where
  "post_process_answer env answer =
     (case run_try (post_process_steps env) answer of
        Inl (e, answer') \<Rightarrow> answer'
      | Inr result \<Rightarrow> result)"

section \<open>Embedding and retrieval\<close>

text \<open>
  \<^verbatim>\<open>generate_embeddings\<close> hands the list of chunks to \<^verbatim>\<open>embedding_model.encode\<close>,
  which returns one vector for each text, in the order of the texts (section 4.3 of the
  specification says the same of the embedder), and raises again what the model raises.
  The tensor of the result is the list of its rows.
\<close>

definition generate_embeddings :: "('e, 's) env \<Rightarrow> str list \<Rightarrow> 'e list option" where
  "generate_embeddings env chunks = those (map (embed env) chunks)"

text \<open>
  \<^verbatim>\<open>retrieve_relevant_chunks\<close>; \<open>None\<close> is the exception it logs and raises again. The
  embeddings are the rows of the tensor, so the scores are one per row.
\<close>

definition retrieve_relevant_chunks ::
  "('e, 's) env \<Rightarrow> str \<Rightarrow> str list \<Rightarrow> 'e list \<Rightarrow> int \<Rightarrow> str list option" where
  "retrieve_relevant_chunks env question chunks embeddings top_k =
     (case embed env question of
        None \<Rightarrow> None
      | Some question_embedding \<Rightarrow>
          (let cos_scores = map (cos_sim env question_embedding) embeddings;
               available_chunks = int (length chunks);
               effective_k = min top_k available_chunks
           in if effective_k = 0 then Some []
              else (case topk env cos_scores effective_k of
                      None \<Rightarrow> None
                    | Some indices \<Rightarrow>
                        if list_all (\<lambda>idx. idx < length chunks) indices
                        then Some (map (\<lambda>idx. chunks ! idx) indices)
                        else None)))"

section \<open>Answer generation (\<^verbatim>\<open>utils.generate_fluent_answer\<close>)\<close>

definition apology_no_chunks :: str where
  "apology_no_chunks =
     u ''I'm sorry, but I couldn't find relevant information to answer your question.''"

definition apology_failed :: str where
  "apology_failed =
     u ''I apologize, but I couldn't generate an accurate answer to that question.''"

definition input_text :: "str \<Rightarrow> str list \<Rightarrow> str" where
  "input_text question relevant_chunks =
     u ''Answer the following question based on the given context. '' @
     u ''Provide a clear and concise answer. '' @
     u ''Question: '' @ question @ u '' '' @
     u ''Context: '' @ join_sp relevant_chunks"

text \<open>
  The argument \<open>calls\<close> counts the runs of the T5 model so far, and the result carries
  the count after the call. The function calls itself when the answer is short, and the
  source sets no limit to that. The interpreter does: \<open>stack\<close> is the number of nested
  calls of the function to itself that still fit under its recursion limit. The call is
  inside the \<^verbatim>\<open>try\<close> block of the function, so when no call fits any more, the
  \<^verbatim>\<open>RecursionError\<close> is caught by \<^verbatim>\<open>except Exception\<close> like every other exception of
  the block, and the function returns the second apology. The frames that logging and the
  libraries need inside the body are not counted.
\<close>

fun generate_fluent_answer ::
  "('e, 's) env \<Rightarrow> str \<Rightarrow> str list \<Rightarrow> nat \<Rightarrow> nat \<Rightarrow> str \<times> nat" where
  "generate_fluent_answer env question relevant_chunks stack calls =
     (if relevant_chunks = [] then (apology_no_chunks, calls)
      else (case t5_generate env calls (input_text question relevant_chunks) of
              None \<Rightarrow> (apology_failed, Suc calls)
            | Some decoded \<Rightarrow>
                (case post_process_answer env (PyStr decoded) of
                   PyStr answer \<Rightarrow>
                     if word_count answer < 5
                     then (case stack of
                             0 \<Rightarrow> (apology_failed, Suc calls)
                           | Suc stack' \<Rightarrow>
                               generate_fluent_answer env question relevant_chunks stack'
                                 (Suc calls))
                     else (answer, Suc calls)
                 | _ \<Rightarrow> (apology_failed, Suc calls))))"

declare generate_fluent_answer.simps [simp del]

text \<open>
  The run of the model numbered \<open>calls\<close> gives an answer that has fewer than five words
  after post-processing: the condition under which the function calls itself.
\<close>

definition answer_too_short :: "('e, 's) env \<Rightarrow> str \<Rightarrow> str list \<Rightarrow> nat \<Rightarrow> bool" where
  "answer_too_short env question relevant_chunks calls =
     (case t5_generate env calls (input_text question relevant_chunks) of
        None \<Rightarrow> False
      | Some decoded \<Rightarrow>
          (case post_process_answer env (PyStr decoded) of
             PyStr answer \<Rightarrow> word_count answer < 5
           | _ \<Rightarrow> False))"

section \<open>PDF text (\<^verbatim>\<open>utils.extract_text_from_pdf\<close>)\<close>

definition extract_text_from_pdf :: "('e, 's) env \<Rightarrow> nat list \<Rightarrow> py_exn + str" where
  "extract_text_from_pdf env file_bytes =
     (case pdf_blocks env file_bytes of
        Inl e \<Rightarrow> Inl e
      | Inr blocks \<Rightarrow>
          (let text_blocks =
                 filter (\<lambda>text. text \<noteq> []) (map (\<lambda>text. strip (re_sub env Ws_run text)) blocks);
               text = join_with [10] text_blocks
           in if strip text = [] then Inl (ValueError ''No text content found in PDF'')
              else Inr (clean_text env text)))"

section \<open>The application (\<^verbatim>\<open>main.py\<close>)\<close>

text \<open>
  A row of the table \<^verbatim>\<open>documents\<close> (the column \<^verbatim>\<open>content\<close> is nullable), an entry of
  the dictionary \<^verbatim>\<open>document_embeddings\<close>, and the state of the process: the table, the
  dictionary, and three counters that the source does not have. They count the calls of
  \<^verbatim>\<open>chunk_context\<close>, of \<^verbatim>\<open>generate_embeddings\<close> and of the T5 model, as a test
  double would.
\<close>

record document =
  original_filename :: str
  content :: "str option"

record 'e index_entry =
  entry_chunks :: "str list"
  entry_embeddings :: "'e list"

record 'e app_state =
  documents :: "int \<rightharpoonup> document"
  document_embeddings :: "int \<rightharpoonup> 'e index_entry"
  chunk_calls :: nat
  embed_calls :: nat
  t5_calls :: nat

datatype http_error = HTTPException (status_code: nat) (detail: string)

record upload_file =
  filename :: str
  file_bytes :: "nat list"

record document_response =
  response_id :: int
  response_filename :: str

record question_request =
  document_id :: int
  question :: str

record question_response =
  answer :: str
  confidence :: real
  answered_document_id :: int
  answered_question :: str
  model_answers :: "(string \<times> str \<times> real) list"

text \<open>
  \<^verbatim>\<open>upload_pdf\<close>. The time stamps and the name of the stored file come from the clock
  and are left out. The row is committed before the embeddings are made, so a failure of
  the embedding model leaves the row without an entry in the dictionary.
\<close>

definition upload_pdf ::
  "('e, 's) env \<Rightarrow> upload_file \<Rightarrow> 'e app_state \<Rightarrow> (http_error + document_response) \<times> 'e app_state"
  where
  "upload_pdf env file s =
     (if \<not> endswith (str_lower env (filename file)) (u ''.pdf'')
      then (Inl (HTTPException 400 ''Only PDF files are allowed''), s)
      else if \<not> save_file env (filename file) (file_bytes file)
      then (Inl (HTTPException 500 ''Unexpected error during file upload''), s)
      else
        (case extract_text_from_pdf env (file_bytes file) of
           Inl (ValueError ve) \<Rightarrow> (Inl (HTTPException 400 ve), s)
         | Inl _ \<Rightarrow> (Inl (HTTPException 500 ''Error extracting text from PDF''), s)
         | Inr text_content \<Rightarrow>
             (case db_insert env (dom (documents s)) of
                None \<Rightarrow> (Inl (HTTPException 500 ''Unexpected error during file upload''), s)
              | Some new_id \<Rightarrow>
                  (let row = \<lparr>original_filename = filename file, content = Some text_content\<rparr>;
                       s = s\<lparr>documents := (documents s)(new_id \<mapsto> row)\<rparr>;
                       chunks = chunk_context text_content 512;
                       s = s\<lparr>chunk_calls := Suc (chunk_calls s)\<rparr>;
                       response = \<lparr>response_id = new_id, response_filename = filename file\<rparr>
                   in if chunks \<noteq> []
                      then (case generate_embeddings env chunks of
                              None \<Rightarrow>
                                (Inl (HTTPException 500 ''Unexpected error during file upload''),
                                 s\<lparr>embed_calls := Suc (embed_calls s)\<rparr>)
                            | Some embeddings \<Rightarrow>
                                (Inr response,
                                 s\<lparr>embed_calls := Suc (embed_calls s),
                                   document_embeddings := (document_embeddings s)
                                     (new_id \<mapsto> \<lparr>entry_chunks = chunks,
                                                  entry_embeddings = embeddings\<rparr>)\<rparr>))
                      else (Inr response, s)))))"

text \<open>
  The first part of \<^verbatim>\<open>ask_question\<close>: the row is looked up, and when the dictionary has
  no entry for the id the document is chunked and embedded and the entry is stored. Then
  the entry is read back; the result is the pair of lists that
  \<^verbatim>\<open>retrieve_relevant_chunks\<close> is given. \<^verbatim>\<open>chunk_context\<close> raises on a \<^verbatim>\<open>None\<close>
  content, and the last handler turns every exception that is not an
  \<^verbatim>\<open>HTTPException\<close> into the status 500.
\<close>

definition ask_question_index ::
  "('e, 's) env \<Rightarrow> int \<Rightarrow> 'e app_state \<Rightarrow> (http_error + 'e index_entry) \<times> 'e app_state" where
  "ask_question_index env doc_id s =
     (case documents s doc_id of
        None \<Rightarrow> (Inl (HTTPException 404 ''Document not found''), s)
      | Some row \<Rightarrow>
          (case document_embeddings s doc_id of
             Some entry \<Rightarrow> (Inr entry, s)
           | None \<Rightarrow>
               (case content row of
                  None \<Rightarrow>
                    (Inl (HTTPException 500 ''Error processing question''),
                     s\<lparr>chunk_calls := Suc (chunk_calls s)\<rparr>)
                | Some text \<Rightarrow>
                    (let chunks = chunk_context text 512;
                         s = s\<lparr>chunk_calls := Suc (chunk_calls s)\<rparr>
                     in if chunks = []
                        then (Inl (HTTPException 500
                                ''No context available to process the question.''), s)
                        else (case generate_embeddings env chunks of
                                None \<Rightarrow>
                                  (Inl (HTTPException 500 ''Error processing question''),
                                   s\<lparr>embed_calls := Suc (embed_calls s)\<rparr>)
                              | Some embeddings \<Rightarrow>
                                  (let entry = \<lparr>entry_chunks = chunks,
                                                entry_embeddings = embeddings\<rparr>
                                   in (Inr entry,
                                       s\<lparr>embed_calls := Suc (embed_calls s),
                                         document_embeddings :=
                                           (document_embeddings s)(doc_id \<mapsto> entry)\<rparr>)))))))"

text \<open>\<^verbatim>\<open>ask_question\<close>. The time stamp of the response is left out.\<close>

definition ask_question ::
  "('e, 's) env \<Rightarrow> question_request \<Rightarrow> 'e app_state \<Rightarrow>
     (http_error + question_response) \<times> 'e app_state" where
  "ask_question env request s =
     (case ask_question_index env (document_id request) s of
        (Inl he, s) \<Rightarrow> (Inl he, s)
      | (Inr entry, s) \<Rightarrow>
          (case retrieve_relevant_chunks env (question request)
                  (entry_chunks entry) (entry_embeddings entry) 3 of
             None \<Rightarrow> (Inl (HTTPException 500 ''Error processing question''), s)
           | Some relevant_chunks \<Rightarrow>
               if relevant_chunks = []
               then (Inr \<lparr>answer = apology_no_chunks, confidence = 0,
                           answered_document_id = document_id request,
                           answered_question = question request,
                           model_answers = []\<rparr>, s)
               else (case generate_fluent_answer env (question request) relevant_chunks
                            (recursion_room env) (t5_calls s) of
                       (generated, calls) \<Rightarrow>
                         (Inr \<lparr>answer = generated, confidence = 1,
                                answered_document_id = document_id request,
                                answered_question = question request,
                                model_answers = [(''t5_qa_model'', generated, 1)]\<rparr>,
                          s\<lparr>t5_calls := calls\<rparr>))))"

text \<open>
  \<^verbatim>\<open>delete_document\<close>: the entry of the dictionary goes after the file and before the
  row, so a failure of the database leaves the row without its entry.
\<close>

definition delete_document ::
  "('e, 's) env \<Rightarrow> int \<Rightarrow> 'e app_state \<Rightarrow> (http_error + string) \<times> 'e app_state" where
  "delete_document env doc_id s =
     (case documents s doc_id of
        None \<Rightarrow> (Inl (HTTPException 404 ''Document not found''), s)
      | Some row \<Rightarrow>
          if \<not> remove_file env doc_id
          then (Inl (HTTPException 500 ''Error deleting document''), s)
          else (let s = s\<lparr>document_embeddings := (document_embeddings s)(doc_id := None)\<rparr>
                in if \<not> db_delete env doc_id
                   then (Inl (HTTPException 500 ''Error deleting document''), s)
                   else (Inr ''Document deleted successfully'',
                         s\<lparr>documents := (documents s)(doc_id := None)\<rparr>)))"

text \<open>
  An entry is parallel when its two lists have the same length and the embedding at every
  index is the embedding of the chunk at that index; the dictionary is parallel when every
  entry is.
\<close>

definition entry_parallel :: "('e, 's) env \<Rightarrow> 'e index_entry \<Rightarrow> bool" where
  "entry_parallel env entry \<longleftrightarrow>
     length (entry_embeddings entry) = length (entry_chunks entry) \<and>
     (\<forall>i < length (entry_chunks entry).
        embed env (entry_chunks entry ! i) = Some (entry_embeddings entry ! i))"

definition cache_parallel :: "('e, 's) env \<Rightarrow> 'e app_state \<Rightarrow> bool" where
  "cache_parallel env s \<longleftrightarrow>
     (\<forall>doc_id entry. document_embeddings s doc_id = Some entry \<longrightarrow> entry_parallel env entry)"

text \<open>
  The states the process can be in. It starts with an empty dictionary, whatever the
  table holds; the three handlers change it; and the table can change under it (the
  scripts that reset the database), which the dictionary does not see.
\<close>

inductive reachable :: "('e, 's) env \<Rightarrow> 'e app_state \<Rightarrow> bool" for env :: "('e, 's) env" where
  start: "document_embeddings s = Map.empty \<Longrightarrow> reachable env s"
| upload: "reachable env s \<Longrightarrow> upload_pdf env file s = (r, s') \<Longrightarrow> reachable env s'"
| ask: "reachable env s \<Longrightarrow> ask_question env request s = (r, s') \<Longrightarrow> reachable env s'"
| delete: "reachable env s \<Longrightarrow> delete_document env doc_id s = (r, s') \<Longrightarrow> reachable env s'"
| table: "reachable env s \<Longrightarrow> reachable env (s\<lparr>documents := table\<rparr>)"

section \<open>A test double for the services\<close>

text \<open>
  A small environment on which the model runs, for the examples below. Its Unicode
  database knows the letter U+00E9 (e with acute accent, which decomposes into \<open>e\<close> and
  the combining accent U+0301) and the ligature U+FB01 (which decomposes into \<open>f\<close> and
  \<open>i\<close> under the compatibility forms only). Its \<^verbatim>\<open>re.sub\<close> returns the text as it
  is, as \<^verbatim>\<open>re.sub\<close> does on the texts of the examples, where no pattern matches. The
  embedding of a text is the sum of its code points, the score of two embeddings is the
  negated distance, and the T5 model always writes the same sentence. Its
  \<^verbatim>\<open>torch.topk\<close> sorts the indices by descending score, keeping equal scores in their
  order, and takes the first \<open>k\<close>; a \<open>k\<close> outside the range of the scores is an error.
  It has room for 996 nested calls on the stack, which is about what a recursion limit of
  1000 leaves.
\<close>

definition stub_decompose :: "bool \<Rightarrow> nat \<Rightarrow> str" where
  "stub_decompose compatibility c =
     (if c = 233 then [101, 769]
      else if c = 64257 \<and> compatibility then [102, 105]
      else [c])"

fun stub_compose :: "str \<Rightarrow> str" where
  "stub_compose (c # d # cs) =
     (if c = 101 \<and> d = 769 then 233 # stub_compose cs else c # stub_compose (d # cs))"
| "stub_compose cs = cs"

definition stub_normalize :: "nform \<Rightarrow> str \<Rightarrow> str" where
  "stub_normalize form text =
     (case form of
        NFD \<Rightarrow> concat (map (stub_decompose False) text)
      | NFKD \<Rightarrow> concat (map (stub_decompose True) text)
      | NFC \<Rightarrow> stub_compose (concat (map (stub_decompose False) text))
      | NFKC \<Rightarrow> stub_compose (concat (map (stub_decompose True) text)))"

definition stub_category :: "nat \<Rightarrow> string" where
  "stub_category c =
     (if c < 32 \<or> (127 \<le> c \<and> c < 160) then ''Cc''
      else if c = 32 then ''Zs''
      else if 48 \<le> c \<and> c \<le> 57 then ''Nd''
      else if 65 \<le> c \<and> c \<le> 90 then ''Lu''
      else if (97 \<le> c \<and> c \<le> 122) \<or> c = 233 \<or> c = 64257 then ''Ll''
      else if c = 769 then ''Mn''
      else ''Po'')"

definition stub_topk :: "int list \<Rightarrow> int \<Rightarrow> nat list option" where
  "stub_topk scores k =
     (if 0 \<le> k \<and> k \<le> int (length scores)
      then Some (take (nat k) (sort_key (\<lambda>i. - (scores ! i)) [0..<length scores]))
      else None)"

definition stub :: "(nat, int) env" where
  "stub =
     \<lparr>re_sub = (\<lambda>r text. text),
      unicodedata_normalize = stub_normalize,
      unicodedata_category = stub_category,
      str_isalpha = (\<lambda>c. (65 \<le> c \<and> c \<le> 90) \<or> (97 \<le> c \<and> c \<le> 122)),
      str_upper = (\<lambda>c. if 97 \<le> c \<and> c \<le> 122 then [c - 32] else [c]),
      str_lower = map (\<lambda>c. if 65 \<le> c \<and> c \<le> 90 then c + 32 else c),
      embed = (\<lambda>text. Some (sum_list text)),
      cos_sim = (\<lambda>a b. - \<bar>int a - int b\<bar>),
      topk = stub_topk,
      t5_generate = (\<lambda>calls prompt. Some (u ''the answer is in the context'')),
      recursion_room = 996,
      pdf_blocks = (\<lambda>bytes. Inr [bytes]),
      save_file = (\<lambda>name bytes. True),
      remove_file = (\<lambda>doc_id. True),
      db_insert = (\<lambda>keys. Some (1 + Max (insert 0 keys))),
      db_delete = (\<lambda>doc_id. True)\<rparr>"

text \<open>
  The same services with a T5 model that only ever writes \<open>ok\<close>, and with one that
  writes \<open>ok\<close> twice before it writes the sentence.
\<close>

definition stub_short :: "(nat, int) env" where
  "stub_short = stub\<lparr>t5_generate := (\<lambda>calls prompt. Some (u ''ok''))\<rparr>"

definition stub_slow :: "(nat, int) env" where
  "stub_slow =
     stub\<lparr>t5_generate := (\<lambda>calls prompt.
       if calls < 2 then Some (u ''ok'') else Some (u ''the answer is in the context''))\<rparr>"

text \<open>A state at the start of the process: one row in the table, nothing in the dictionary.\<close>

definition stub_state :: "nat app_state" where
  "stub_state =
     \<lparr>documents = [1 \<mapsto> \<lparr>original_filename = u ''cv.pdf'',
                           content = Some (u ''Ann is an engineer. She likes tea.'')\<rparr>],
      document_embeddings = Map.empty,
      chunk_calls = 0, embed_calls = 0, t5_calls = 0\<rparr>"

definition stub_request :: question_request where
  "stub_request = \<lparr>document_id = 1, question = u ''What does Ann like?''\<rparr>"

text \<open>
  The entry that the first question about document 1 stores, the state after that
  question, and the table after the content of the document has been replaced.
\<close>

definition stub_entry :: "nat index_entry" where
  "stub_entry =
     \<lparr>entry_chunks = [u ''Ann is an engineer. She likes tea.''], entry_embeddings = [2979]\<rparr>"

definition stub_state_asked :: "nat app_state" where
  "stub_state_asked =
     stub_state\<lparr>document_embeddings := [1 \<mapsto> stub_entry],
       chunk_calls := 1, embed_calls := 1, t5_calls := 1\<rparr>"

definition stub_table_changed :: "int \<rightharpoonup> document" where
  "stub_table_changed =
     [1 \<mapsto> \<lparr>original_filename = u ''cv.pdf'', content = Some (u ''Bob sells shoes.'')\<rparr>]"

definition stub_response :: question_response where
  "stub_response =
     \<lparr>answer = u ''The answer is in the context.'', confidence = 1,
      answered_document_id = 1, answered_question = u ''What does Ann like?'',
      model_answers = [(''t5_qa_model'', u ''The answer is in the context.'', 1)]\<rparr>"

section \<open>Running the model on the test double\<close>

lemmas string_defs =
  u_def isspace_def is_sentence_end_def word_count_def split_ws_def join_sp_def
  strip_def endswith_def

lemma stub_chunks:
  "chunk_context (u ''Ann is an engineer. She likes tea.'') 512 =
     [u ''Ann is an engineer. She likes tea.'']"
  by (simp add: chunk_context_def string_defs)

lemma stub_post_process:
  "post_process_answer stub (PyStr (u ''the answer is in the context'')) =
     PyStr (u ''The answer is in the context.'')"
  by (simp add: post_process_answer_def post_process_steps_def on_str_def stub_def
      collapse_whitespace_def drop_fragments_def capitalise_first_def ensure_terminal_def
      string_defs)

lemma stub_generate:
  "generate_fluent_answer stub q [c] stack n = (u ''The answer is in the context.'', Suc n)"
proof -
  have t5: "t5_generate stub n p = Some (u ''the answer is in the context'')" for p
    by (simp add: stub_def)
  have wc: "\<not> word_count (u ''The answer is in the context.'') < 5"
    by (simp add: string_defs)
  show ?thesis
    by (subst generate_fluent_answer.simps) (simp add: t5 stub_post_process wc)
qed

lemma stub_retrieve:
  "retrieve_relevant_chunks stub q [c] [e] 3 = Some [c]"
  by (simp add: retrieve_relevant_chunks_def stub_def stub_topk_def)

lemma stub_index_first:
  "ask_question_index stub 1 stub_state = (Inr stub_entry, stub_state_asked\<lparr>t5_calls := 0\<rparr>)"
  by (simp add: ask_question_index_def stub_state_def stub_chunks generate_embeddings_def
      stub_entry_def stub_state_asked_def Let_def) (simp add: stub_def u_def Let_def)

lemma stub_first_call:
  "ask_question stub stub_request stub_state = (Inr stub_response, stub_state_asked)"
proof -
  have "document_id stub_request = 1" "question stub_request = u ''What does Ann like?''"
    by (simp_all add: stub_request_def)
  then show ?thesis
    by (simp add: ask_question_def stub_index_first stub_entry_def stub_retrieve stub_generate
        stub_response_def stub_state_asked_def)
qed

lemma stub_second_call:
  "ask_question stub stub_request (stub_state_asked\<lparr>documents := stub_table_changed\<rparr>) =
     (Inr stub_response, stub_state_asked\<lparr>documents := stub_table_changed, t5_calls := 2\<rparr>)"
proof -
  have id: "document_id stub_request = 1" "question stub_request = u ''What does Ann like?''"
    by (simp_all add: stub_request_def)
  have idx: "ask_question_index stub 1 (stub_state_asked\<lparr>documents := stub_table_changed\<rparr>) =
      (Inr stub_entry, stub_state_asked\<lparr>documents := stub_table_changed\<rparr>)"
    by (simp add: ask_question_index_def stub_state_asked_def stub_table_changed_def)
  have t5: "t5_calls (stub_state_asked\<lparr>documents := stub_table_changed\<rparr>) = 1"
    by (simp add: stub_state_asked_def)
  show ?thesis
    by (simp add: ask_question_def id idx stub_entry_def stub_retrieve stub_generate t5
        stub_response_def)
qed

section \<open>The chunker\<close>

lemma isspace_32: "isspace 32"
  by (simp add: isspace_def)

lemma split_acc_append_space:
  "isspace c \<Longrightarrow> split_acc w (a @ c # b) = split_acc w a @ split_acc [] b"
  by (induction a arbitrary: w) auto

lemma split_ws_space: "split_ws (a @ 32 # b) = split_ws a @ split_ws b"
  by (simp add: split_ws_def split_acc_append_space isspace_32)

lemma word_count_join_Cons:
  "word_count (join_sp (x # y # ys)) = word_count x + word_count (join_sp (y # ys))"
  by (simp add: word_count_def join_sp_def split_ws_space)

lemma word_count_join_sp: "word_count (join_sp xs) = sum_list (map word_count xs)"
proof (induction xs rule: induct_list012)
  case 1
  show ?case by (simp add: join_sp_def word_count_def split_ws_def)
next
  case (2 x)
  show ?case by (simp add: join_sp_def)
next
  case (3 x y zs)
  then show ?case by (simp add: word_count_join_Cons)
qed

lemma word_count_nonneg: "0 \<le> word_count s"
  by (simp add: word_count_def)

lemma chunk_within_limit_current:
  assumes "current_chunk \<noteq> []"
    and "sum_list (map word_count current_chunk) \<le> m \<or> length current_chunk = 1"
  shows "chunk_within_limit m current_chunk"
proof (cases current_chunk)
  case Nil
  with assms show ?thesis by simp
next
  case (Cons s rest)
  show ?thesis
  proof (cases rest)
    case Nil
    with Cons show ?thesis
      by (auto simp: chunk_within_limit_def join_sp_def)
  next
    case (Cons t rest')
    with \<open>current_chunk = s # rest\<close> assms show ?thesis
      by (simp add: chunk_within_limit_def word_count_join_sp)
  qed
qed

lemma chunk_loop_groups:
  assumes "chunks = map join_sp groups"
    and "\<forall>g \<in> set groups. chunk_within_limit m g"
    and "current_length = sum_list (map word_count current_chunk)"
    and "current_length \<le> m \<or> length current_chunk \<le> 1"
  shows "\<exists>groups'. chunk_loop m sentences chunks current_chunk current_length = map join_sp groups' \<and>
           concat groups' = concat groups @ current_chunk @ sentences \<and>
           (\<forall>g \<in> set groups'. chunk_within_limit m g)"
  using assms
proof (induction sentences arbitrary: chunks groups current_chunk current_length)
  case Nil
  show ?case
  proof (cases "current_chunk = []")
    case True
    with Nil show ?thesis by auto
  next
    case False
    then have "chunk_within_limit m current_chunk"
      using Nil.prems(3,4) by (intro chunk_within_limit_current) (auto simp: Suc_le_eq le_Suc_eq)
    with False Nil.prems(1,2) show ?thesis
      by (intro exI [of _ "groups @ [current_chunk]"]) simp
  qed
next
  case (Cons s sentences)
  let ?sl = "word_count s"
  show ?case
  proof (cases "current_length + ?sl > m")
    case True
    let ?groups = "if current_chunk \<noteq> [] then groups @ [current_chunk] else groups"
    let ?chunks = "if current_chunk \<noteq> [] then chunks @ [join_sp current_chunk] else chunks"
    have c: "?chunks = map join_sp ?groups"
      using Cons.prems(1) by simp
    have "current_chunk \<noteq> [] \<Longrightarrow> chunk_within_limit m current_chunk"
      using Cons.prems(3,4) by (intro chunk_within_limit_current) (auto simp: le_Suc_eq)
    then have g: "\<forall>g \<in> set ?groups. chunk_within_limit m g"
      using Cons.prems(2) by auto
    from Cons.IH [OF c g, of ?sl "[s]"]
    obtain groups' where
      "chunk_loop m sentences ?chunks [s] ?sl = map join_sp groups'"
      "concat groups' = concat ?groups @ [s] @ sentences"
      "\<forall>g \<in> set groups'. chunk_within_limit m g"
      by auto
    with True show ?thesis
      by (intro exI [of _ groups']) (simp add: Let_def)
  next
    case False
    have l: "current_length + ?sl = sum_list (map word_count (current_chunk @ [s]))"
      using Cons.prems(3) by simp
    from Cons.IH [OF Cons.prems(1,2) l] False
    obtain groups' where
      "chunk_loop m sentences chunks (current_chunk @ [s]) (current_length + ?sl) = map join_sp groups'"
      "concat groups' = concat groups @ (current_chunk @ [s]) @ sentences"
      "\<forall>g \<in> set groups'. chunk_within_limit m g"
      by auto
    with False show ?thesis
      by (intro exI [of _ groups']) (simp add: Let_def)
  qed
qed

text \<open>
  Claim C1. For every text and every limit, each chunk of \<open>chunk_context\<close> is the join,
  with single spaces, of a group of whole sentences, and the groups in their order make up
  the sentence list of the text: no sentence is cut or shared between chunks. The word
  count of each chunk is at most the limit, unless the chunk is a single sentence that
  alone has more words than the limit.
\<close>

theorem chunk_context_within_limit:
  "\<exists>groups. chunk_context context max_chunk_size = map join_sp groups \<and>
     concat groups = re_split_sentences [] context \<and>
     (\<forall>g \<in> set groups. chunk_within_limit max_chunk_size g)"
  unfolding chunk_context_def
  using chunk_loop_groups [of "[]" "[]" max_chunk_size 0 "[]" "re_split_sentences [] context"]
  by simp

text \<open>
  The theorem at a text of four sentences and the limit 3: the first sentence has four
  words and stands alone, the next two share a chunk.
\<close>

lemma sample_chunks:
  "chunk_context (u ''a b c d. e f. g. h i j.'') 3 = [u ''a b c d.'', u ''e f. g.'', u ''h i j.'']"
  by (simp add: chunk_context_def string_defs)

theorem chunk_context_within_limit_witness:
  "\<exists>groups. [u ''a b c d.'', u ''e f. g.'', u ''h i j.''] = map join_sp groups \<and>
     concat groups = [u ''a b c d.'', u ''e f.'', u ''g.'', u ''h i j.''] \<and>
     list_all (chunk_within_limit 3) groups"
proof -
  have sentences: "re_split_sentences [] (u ''a b c d. e f. g. h i j.'') =
      [u ''a b c d.'', u ''e f.'', u ''g.'', u ''h i j.'']"
    by (simp add: string_defs)
  from chunk_context_within_limit [of "u ''a b c d. e f. g. h i j.''" 3]
  show ?thesis
    unfolding sample_chunks sentences list_all_iff .
qed

text \<open>
  Claim C5 says that the empty text gives no chunk. The code gives one chunk, the empty
  string: \<^verbatim>\<open>re.split\<close> returns the list of one empty piece, the loop puts that piece
  into \<^verbatim>\<open>current_chunk\<close>, and the test \<^verbatim>\<open>if current_chunk\<close> after the loop sees a
  list that is not empty.
\<close>

theorem chunk_context_empty_text: "chunk_context [] max_chunk_size = [[]]"
  by (simp add: chunk_context_def word_count_def split_ws_def join_sp_def)

lemma re_split_sentences_nonempty: "re_split_sentences piece s \<noteq> []"
  by (induction piece s rule: re_split_sentences.induct) auto

lemma chunk_loop_nonempty:
  "sentences \<noteq> [] \<or> current_chunk \<noteq> [] \<Longrightarrow>
     chunk_loop m sentences cs current_chunk current_length \<noteq> []"
  by (induction sentences arbitrary: cs current_chunk current_length) (auto simp: Let_def)

lemma chunk_context_not_Nil: "chunk_context context m \<noteq> []"
  by (simp add: chunk_context_def chunk_loop_nonempty re_split_sentences_nonempty)

lemma index_hit:
  "documents s i = Some row \<Longrightarrow> document_embeddings s i = Some entry \<Longrightarrow>
     ask_question_index env i s = (Inr entry, s)"
  by (simp add: ask_question_index_def)

lemma index_effect:
  assumes "ask_question_index env i s = (r, s')"
  shows "documents s' = documents s \<and> t5_calls s' = t5_calls s \<and>
         chunk_calls s' \<le> Suc (chunk_calls s) \<and> embed_calls s' \<le> Suc (embed_calls s)"
  using assms
  by (auto simp: ask_question_index_def Let_def split: option.splits if_splits)

lemma index_never_no_context:
  assumes "ask_question_index env i s = (r, s')"
  shows "r \<noteq> Inl (HTTPException 500 ''No context available to process the question.'')"
  using assms
  by (auto simp: ask_question_index_def Let_def chunk_context_not_Nil
      split: option.splits if_splits)

lemma ask_question_cases:
  assumes "ask_question env request s = (r, s')"
  obtains (rejected) he where
      "ask_question_index env (document_id request) s = (Inl he, s')" "r = Inl he"
  | (failed) entry where
      "ask_question_index env (document_id request) s = (Inr entry, s')"
      "r = Inl (HTTPException 500 ''Error processing question'')"
  | (answered) entry s1 resp calls where
      "ask_question_index env (document_id request) s = (Inr entry, s1)"
      "r = Inr resp" "s' = s1 \<or> s' = s1\<lparr>t5_calls := calls\<rparr>"
  using assms
  by (auto simp: ask_question_def split: prod.splits sum.splits option.splits if_splits)

lemma ask_question_effect:
  assumes "ask_question env request s = (r, s')"
  obtains r1 s1 where
    "ask_question_index env (document_id request) s = (r1, s1)"
    "document_embeddings s' = document_embeddings s1"
    "chunk_calls s' = chunk_calls s1" "embed_calls s' = embed_calls s1"
    "documents s' = documents s1"
  using assms by (cases rule: ask_question_cases) auto

text \<open>
  Claim C10. For every text (the empty one too) and every limit, \<open>chunk_context\<close>
  returns at least one chunk. So \<open>ask_question\<close> never answers with the error of the
  branch that tests for an empty chunk list, whatever the stored content is.
\<close>

theorem chunk_context_never_empty:
  "chunk_context context max_chunk_size \<noteq> [] \<and>
   (ask_question env request s = (r, s') \<longrightarrow>
      r \<noteq> Inl (HTTPException 500 ''No context available to process the question.''))"
proof (intro conjI impI)
  show "chunk_context context max_chunk_size \<noteq> []"
    by (rule chunk_context_not_Nil)
next
  assume "ask_question env request s = (r, s')"
  then show "r \<noteq> Inl (HTTPException 500 ''No context available to process the question.'')"
  proof (cases rule: ask_question_cases)
    case (rejected he)
    then show ?thesis using index_never_no_context by blast
  next
    case (failed entry)
    then show ?thesis by simp
  next
    case (answered entry s1 resp calls)
    then show ?thesis by simp
  qed
qed

text \<open>
  The theorem at the first question about document 1 of the test double, whose content is
  a string and which has no entry in the dictionary yet.
\<close>

theorem chunk_context_never_empty_witness:
  "chunk_context (u ''Ann is an engineer. She likes tea.'') 512 \<noteq> [] \<and>
   ask_question stub stub_request stub_state = (Inr stub_response, stub_state_asked) \<and>
   (Inr stub_response :: http_error + question_response) \<noteq>
     Inl (HTTPException 500 ''No context available to process the question.'')"
  using chunk_context_never_empty
    [of "u ''Ann is an engineer. She likes tea.''" 512 stub stub_request stub_state
      "Inr stub_response" stub_state_asked]
    stub_first_call
  by simp

section \<open>The dictionary of embeddings\<close>

text \<open>
  Claim C4. Let a first question have returned with the entry of its document stored. Then
  a second question about the same document, asked after the table has changed in any way
  that keeps a row for the document, is given the stored entry, leaves the dictionary as
  it is, and calls neither \<open>chunk_context\<close> nor \<open>generate_embeddings\<close>; over both
  questions \<open>generate_embeddings\<close> has run at most once.
\<close>

theorem cache_entry_reused:
  assumes first: "ask_question env request1 s0 = (r1, s1)"
    and stored: "document_embeddings s1 (document_id request1) = Some entry"
    and row: "table (document_id request1) = Some row"
    and same: "document_id request2 = document_id request1"
    and second: "ask_question env request2 (s1\<lparr>documents := table\<rparr>) = (r2, s2)"
  shows "ask_question_index env (document_id request2) (s1\<lparr>documents := table\<rparr>) =
           (Inr entry, s1\<lparr>documents := table\<rparr>) \<and>
         document_embeddings s2 = document_embeddings s1 \<and>
         chunk_calls s2 = chunk_calls s1 \<and> embed_calls s2 = embed_calls s1 \<and>
         embed_calls s2 \<le> embed_calls s0 + 1"
proof -
  let ?s = "s1\<lparr>documents := table\<rparr>"
  have hit: "ask_question_index env (document_id request2) ?s = (Inr entry, ?s)"
    using stored row same by (intro index_hit [where row = row]) simp_all
  from second obtain r' s' where
    "ask_question_index env (document_id request2) ?s = (r', s')"
    "document_embeddings s2 = document_embeddings s'"
    "chunk_calls s2 = chunk_calls s'" "embed_calls s2 = embed_calls s'"
    by (rule ask_question_effect)
  with hit have unchanged:
    "document_embeddings s2 = document_embeddings s1"
    "chunk_calls s2 = chunk_calls s1" "embed_calls s2 = embed_calls s1"
    by simp_all
  from first obtain r0 s0' where
    "ask_question_index env (document_id request1) s0 = (r0, s0')"
    "embed_calls s1 = embed_calls s0'"
    by (rule ask_question_effect)
  then have "embed_calls s1 \<le> embed_calls s0 + 1"
    using index_effect [of env "document_id request1" s0 r0 s0'] by simp
  with hit unchanged show ?thesis
    by simp
qed

text \<open>
  The theorem at two questions about document 1 of the test double, with the content of
  the document replaced between them.
\<close>

theorem cache_entry_reused_witness:
  "ask_question stub stub_request stub_state = (Inr stub_response, stub_state_asked) \<and>
   document_embeddings stub_state_asked (document_id stub_request) = Some stub_entry \<and>
   stub_table_changed (document_id stub_request) =
     Some \<lparr>original_filename = u ''cv.pdf'', content = Some (u ''Bob sells shoes.'')\<rparr> \<and>
   ask_question stub stub_request (stub_state_asked\<lparr>documents := stub_table_changed\<rparr>) =
     (Inr stub_response,
      stub_state_asked\<lparr>documents := stub_table_changed, t5_calls := 2\<rparr>) \<and>
   ask_question_index stub (document_id stub_request)
       (stub_state_asked\<lparr>documents := stub_table_changed\<rparr>) =
     (Inr stub_entry, stub_state_asked\<lparr>documents := stub_table_changed\<rparr>) \<and>
   embed_calls (stub_state_asked\<lparr>documents := stub_table_changed, t5_calls := 2\<rparr>) = 1 \<and>
   embed_calls stub_state = 0"
proof -
  have stored: "document_embeddings stub_state_asked (document_id stub_request) = Some stub_entry"
    by (simp add: stub_state_asked_def stub_request_def)
  have row: "stub_table_changed (document_id stub_request) =
      Some \<lparr>original_filename = u ''cv.pdf'', content = Some (u ''Bob sells shoes.'')\<rparr>"
    by (simp add: stub_table_changed_def stub_request_def)
  have counts:
    "embed_calls (stub_state_asked\<lparr>documents := stub_table_changed, t5_calls := 2\<rparr>) = 1"
    "embed_calls stub_state = 0"
    by (simp_all add: stub_state_asked_def stub_state_def)
  from cache_entry_reused [OF stub_first_call stored row refl stub_second_call]
    stub_first_call stub_second_call stored row counts
  show ?thesis
    by simp
qed

lemma those_map_parallel:
  "those (map f xs) = Some ys \<Longrightarrow>
     length ys = length xs \<and> (\<forall>i<length xs. f (xs ! i) = Some (ys ! i))"
proof (induction xs arbitrary: ys)
  case Nil
  then show ?case by simp
next
  case (Cons x xs)
  then obtain y ys' where "f x = Some y" "those (map f xs) = Some ys'" "ys = y # ys'"
    by (auto split: option.splits)
  with Cons.IH [of ys'] show ?case
    by (auto simp: nth_Cons split: nat.splits)
qed

lemma generate_embeddings_parallel:
  "generate_embeddings env cs = Some es \<Longrightarrow>
     entry_parallel env \<lparr>entry_chunks = cs, entry_embeddings = es\<rparr>"
  by (simp add: generate_embeddings_def entry_parallel_def those_map_parallel)

lemma index_keeps_parallel:
  assumes "cache_parallel env s" and "ask_question_index env i s = (r, s')"
  shows "cache_parallel env s'"
  using assms
  by (auto simp: ask_question_index_def cache_parallel_def Let_def generate_embeddings_parallel
      split: option.splits if_splits)

lemma upload_keeps_parallel:
  assumes "cache_parallel env s" and "upload_pdf env file s = (r, s')"
  shows "cache_parallel env s'"
  using assms
  by (auto simp: upload_pdf_def cache_parallel_def Let_def generate_embeddings_parallel
      split: option.splits if_splits sum.splits py_exn.splits)

lemma delete_keeps_parallel:
  assumes "cache_parallel env s" and "delete_document env i s = (r, s')"
  shows "cache_parallel env s'"
  using assms
  by (auto simp: delete_document_def cache_parallel_def Let_def split: option.splits if_splits)

lemma ask_keeps_parallel:
  assumes "cache_parallel env s" and "ask_question env request s = (r, s')"
  shows "cache_parallel env s'"
proof -
  from assms(2) obtain r1 s1 where
    "ask_question_index env (document_id request) s = (r1, s1)"
    "document_embeddings s' = document_embeddings s1"
    by (rule ask_question_effect)
  with index_keeps_parallel [OF assms(1), of "document_id request" r1 s1] show ?thesis
    by (simp add: cache_parallel_def)
qed

lemma reachable_parallel: "reachable env s \<Longrightarrow> cache_parallel env s"
proof (induction rule: reachable.induct)
  case (start s)
  then show ?case by (simp add: cache_parallel_def)
next
  case (upload s f r s')
  then show ?case using upload_keeps_parallel by blast
next
  case (ask s request r s')
  then show ?case using ask_keeps_parallel by blast
next
  case (delete s doc_id r s')
  then show ?case using delete_keeps_parallel by blast
next
  case (table s t)
  then show ?case by (simp add: cache_parallel_def)
qed

text \<open>
  Claim C7. In every state that the process can reach, every entry of the dictionary,
  whether stored by an upload or by a question, has as many embeddings as chunks, and the
  embedding at each index is the embedding of the chunk at that index.
\<close>

theorem cache_entries_parallel:
  assumes "reachable env s" and "document_embeddings s doc_id = Some entry"
  shows "length (entry_embeddings entry) = length (entry_chunks entry) \<and>
         (\<forall>i < length (entry_chunks entry).
            embed env (entry_chunks entry ! i) = Some (entry_embeddings entry ! i))"
  using reachable_parallel [OF assms(1)] assms(2)
  by (auto simp: cache_parallel_def entry_parallel_def)

text \<open>The theorem at the state after the first question about document 1.\<close>

theorem cache_entries_parallel_witness:
  "reachable stub stub_state_asked \<and>
   document_embeddings stub_state_asked 1 = Some stub_entry \<and>
   length (entry_embeddings stub_entry) = length (entry_chunks stub_entry) \<and>
   length (entry_chunks stub_entry) = 1 \<and>
   embed stub (entry_chunks stub_entry ! 0) = Some (entry_embeddings stub_entry ! 0)"
proof -
  have "document_embeddings stub_state = Map.empty"
    by (simp add: stub_state_def)
  then have "reachable stub stub_state"
    by (rule reachable.start)
  then have r: "reachable stub stub_state_asked"
    using stub_first_call by (rule reachable.ask)
  have stored: "document_embeddings stub_state_asked 1 = Some stub_entry"
    by (simp add: stub_state_asked_def)
  have len: "length (entry_chunks stub_entry) = 1"
    by (simp add: stub_entry_def)
  from cache_entries_parallel [OF r stored] r stored len show ?thesis
    by simp
qed

section \<open>Post-processing\<close>

lemma run_try_str:
  "list_all (\<lambda>stmt. \<forall>s. \<exists>s'. stmt (PyStr s) = Inr (PyStr s')) stmts \<Longrightarrow>
     \<exists>s'. run_try stmts (PyStr s) = Inr (PyStr s')"
proof (induction stmts arbitrary: s)
  case Nil
  then show ?case by simp
next
  case (Cons stmt stmts)
  then obtain s1 where "stmt (PyStr s) = Inr (PyStr s1)"
    by auto
  with Cons show ?case
    by auto
qed

lemma post_process_steps_total:
  "list_all (\<lambda>stmt. \<forall>s. \<exists>s'. stmt (PyStr s) = Inr (PyStr s')) (post_process_steps env)"
  by (simp add: post_process_steps_def on_str_def)

lemma post_process_str_never_raises:
  "\<exists>s'. run_try (post_process_steps env) (PyStr s) = Inr (PyStr s')"
  by (rule run_try_str [OF post_process_steps_total])

lemma post_process_raises_at_first:
  assumes "run_try (post_process_steps env) raw = Inl (e, a)"
  shows "a = raw"
proof (cases raw)
  case (PyStr s)
  with assms post_process_str_never_raises [of env s] show ?thesis
    by auto
qed (use assms in \<open>auto simp: post_process_steps_def on_str_def\<close>)

text \<open>
  Claim C6. For every argument, when a statement of the post-processing raises, the
  function returns the argument as it was given; the handler returns a value for every
  exception, so none reaches the caller. (On a \<^verbatim>\<open>str\<close> no statement raises, which is
  \<open>post_process_str_never_raises\<close>; the statement that can raise is the first one, on an
  argument that is not a \<^verbatim>\<open>str\<close>.)
\<close>

theorem post_process_fails_open:
  assumes "run_try (post_process_steps env) raw = Inl (e, a)"
  shows "post_process_answer env raw = raw"
  using assms post_process_raises_at_first [OF assms]
  by (simp add: post_process_answer_def)

text \<open>The theorem at the argument \<^verbatim>\<open>None\<close>.\<close>

theorem post_process_fails_open_witness:
  "run_try (post_process_steps stub) PyNone = Inl (TypeError, PyNone) \<and>
   post_process_answer stub PyNone = PyNone"
proof -
  have raised: "run_try (post_process_steps stub) PyNone = Inl (TypeError, PyNone)"
    by (simp add: post_process_steps_def on_str_def)
  from post_process_fails_open [OF raised] raised show ?thesis
    by simp
qed

section \<open>The text normalizer\<close>

text \<open>
  Claim C9 says that the first step is the canonical decomposition followed by the
  canonical composition. The code asks for the form NFKD, the compatibility decomposition
  with no composition after it. On the one letter U+00E9 the code returns the two code
  points of the decomposed letter, where the steps of the claim return the letter.
\<close>

theorem clean_text_not_canonical_composition:
  "clean_text stub [233] = [101, 769] \<and> clean_text_spec stub [233] = [233]"
  by (simp add: clean_text_def clean_text_spec_def stub_def stub_normalize_def
      stub_decompose_def stub_category_def string_defs)

text \<open>
  Claim C9, amended. The first step of \<open>clean_text\<close> is the compatibility decomposition
  NFKD, before the control characters are removed and the whitespace is collapsed: the
  result depends on the text only through its NFKD form.
\<close>

theorem clean_text_through_nfkd:
  assumes "unicodedata_normalize env NFKD a = unicodedata_normalize env NFKD b"
  shows "clean_text env a = clean_text env b"
  using assms by (simp add: clean_text_def)

text \<open>
  The theorem at the ligature U+FB01 and the two letters \<open>fi\<close>, which have the same
  NFKD form.
\<close>

theorem clean_text_through_nfkd_witness:
  "unicodedata_normalize stub NFKD [64257] = unicodedata_normalize stub NFKD (u ''fi'') \<and>
   clean_text stub [64257] = clean_text stub (u ''fi'') \<and>
   clean_text stub [64257] = u ''fi''"
proof -
  have same: "unicodedata_normalize stub NFKD [64257] = unicodedata_normalize stub NFKD (u ''fi'')"
    by (simp add: stub_def stub_normalize_def stub_decompose_def u_def)
  have "clean_text stub (u ''fi'') = u ''fi''"
    by (simp add: clean_text_def stub_def stub_normalize_def stub_decompose_def
        stub_category_def string_defs)
  with clean_text_through_nfkd [OF same] same show ?thesis
    by simp
qed

section \<open>Answer generation\<close>

text \<open>
  Claim C3. For every question, \<open>generate_fluent_answer\<close> on an empty list of chunks
  returns the first apology, and the count of the runs of the T5 model is the one it was
  given: the model has not run.
\<close>

theorem generate_without_chunks:
  "generate_fluent_answer env q [] stack calls = (apology_no_chunks, calls)"
  by (subst generate_fluent_answer.simps) simp

lemma short_cases:
  assumes "answer_too_short env q cs n"
  obtains decoded a where
        "t5_generate env n (input_text q cs) = Some decoded"
        "post_process_answer env (PyStr decoded) = PyStr a" "word_count a < 5"
proof (cases "t5_generate env n (input_text q cs)")
  case None
  with assms show ?thesis by (simp add: answer_too_short_def)
next
  case (Some decoded)
  with assms that show ?thesis
    by (cases "post_process_answer env (PyStr decoded)") (simp_all add: answer_too_short_def)
qed

lemma generate_retry_step:
  assumes "cs \<noteq> []" and "answer_too_short env q cs n"
  shows "generate_fluent_answer env q cs (Suc stack) n =
           generate_fluent_answer env q cs stack (Suc n)"
    and "generate_fluent_answer env q cs 0 n = (apology_failed, Suc n)"
proof -
  from assms(2) obtain decoded a where
    "t5_generate env n (input_text q cs) = Some decoded"
    "post_process_answer env (PyStr decoded) = PyStr a" "word_count a < 5"
    by (rule short_cases)
  with assms(1) show
    "generate_fluent_answer env q cs (Suc stack) n =
       generate_fluent_answer env q cs stack (Suc n)"
    "generate_fluent_answer env q cs 0 n = (apology_failed, Suc n)"
    by (subst generate_fluent_answer.simps, simp)+
qed

lemma generate_accepts:
  assumes "cs \<noteq> []"
    and "t5_generate env n (input_text q cs) = Some decoded"
    and "post_process_answer env (PyStr decoded) = PyStr a"
    and "\<not> word_count a < 5"
  shows "generate_fluent_answer env q cs stack n = (a, Suc n)"
  using assms by (subst generate_fluent_answer.simps) simp

lemma retries_then_accepts:
  assumes "cs \<noteq> []"
    and "\<forall>k<j. answer_too_short env q cs (n + k)"
    and "j \<le> stack"
    and "t5_generate env (n + j) (input_text q cs) = Some decoded"
    and "post_process_answer env (PyStr decoded) = PyStr a"
    and "\<not> word_count a < 5"
  shows "generate_fluent_answer env q cs stack n = (a, Suc (n + j))"
  using assms(2-4)
proof (induction j arbitrary: stack n)
  case 0
  with assms(1,5,6) show ?case
    by (simp add: generate_accepts)
next
  case (Suc j)
  from Suc.prems(2) obtain stack' where stack: "stack = Suc stack'" "j \<le> stack'"
    by (cases stack) auto
  from Suc.prems(1) have first: "answer_too_short env q cs n"
    by (metis add.right_neutral zero_less_Suc)
  have rest: "\<forall>k<j. answer_too_short env q cs (Suc n + k)"
    using Suc.prems(1) by (metis Suc_less_eq add_Suc add_Suc_right)
  have "generate_fluent_answer env q cs stack' (Suc n) = (a, Suc (Suc n + j))"
    using Suc.prems(3) by (intro Suc.IH [OF rest stack(2)]) simp
  with generate_retry_step(1) [OF assms(1) first, of stack'] stack(1) show ?case
    by simp
qed

lemma retries_until_stack_is_full:
  assumes "cs \<noteq> []"
    and "\<forall>k\<le>stack. answer_too_short env q cs (n + k)"
  shows "generate_fluent_answer env q cs stack n = (apology_failed, Suc (n + stack))"
  using assms(2)
proof (induction stack arbitrary: n)
  case 0
  then have "answer_too_short env q cs n"
    by simp
  from generate_retry_step(2) [OF assms(1) this] show ?case
    by simp
next
  case (Suc stack)
  from Suc.prems have first: "answer_too_short env q cs n"
    by (metis add.right_neutral le0)
  have rest: "\<forall>k\<le>stack. answer_too_short env q cs (Suc n + k)"
    using Suc.prems by (metis Suc_le_mono add_Suc add_Suc_right)
  from Suc.IH [OF rest] generate_retry_step(1) [OF assms(1) first, of stack] show ?case
    by simp
qed

lemma stub_short_always:
  "answer_too_short stub_short (u ''q'') [u ''c''] k"
  by (simp add: answer_too_short_def stub_short_def stub_def post_process_answer_def
      post_process_steps_def on_str_def collapse_whitespace_def drop_fragments_def
      capitalise_first_def ensure_terminal_def string_defs)

text \<open>
  Claim C8 says that the function is not total on a model that keeps writing short
  answers. The call of the function to itself is inside its own \<^verbatim>\<open>try\<close> block, so
  the \<^verbatim>\<open>RecursionError\<close> of the interpreter is caught and the function returns: with
  room for 996 nested calls it returns the second apology after 997 runs of a model that
  only writes \<open>ok\<close>.
\<close>

theorem retry_returns_at_recursion_limit:
  "generate_fluent_answer stub_short (u ''q'') [u ''c''] 996 0 = (apology_failed, 997)"
proof -
  have ne: "[u ''c''] \<noteq> []"
    by simp
  have short: "\<forall>k\<le>996. answer_too_short stub_short (u ''q'') [u ''c''] (0 + k)"
    by (simp add: stub_short_always)
  from retries_until_stack_is_full [OF ne short] show ?thesis
    by simp
qed

text \<open>
  Claim C8, amended. When the post-processed answer has fewer than five words,
  \<open>generate_fluent_answer\<close> calls itself with the same question and the same chunks, and the
  source sets no ceiling on these calls: after \<open>j\<close> short answers that fit on the stack the
  result is the answer of the next run of the model on the same prompt. The only bound is
  the recursion limit of the interpreter: when the model keeps writing short answers, the
  function runs it once for each call that fits on the stack and then returns the second
  apology. So the function always returns.
\<close>

theorem retry_bounded_only_by_stack:
  assumes "cs \<noteq> []"
  shows "((\<forall>k<j. answer_too_short env q cs (n + k)) \<and> j \<le> stack \<and>
          t5_generate env (n + j) (input_text q cs) = Some decoded \<and>
          post_process_answer env (PyStr decoded) = PyStr a \<and> \<not> word_count a < 5 \<longrightarrow>
            generate_fluent_answer env q cs stack n = (a, Suc (n + j))) \<and>
         ((\<forall>k\<le>stack. answer_too_short env q cs (n + k)) \<longrightarrow>
            generate_fluent_answer env q cs stack n = (apology_failed, Suc (n + stack)))"
  using retries_then_accepts [OF assms, of j env q n stack decoded a]
    retries_until_stack_is_full [OF assms, of stack env q n]
  by blast

text \<open>
  The theorem at a model that writes \<open>ok\<close> twice and then a sentence, with room for five
  calls, and at a model that only writes \<open>ok\<close>, with room for three.
\<close>

theorem retry_bounded_only_by_stack_witness:
  "[u ''c''] \<noteq> [] \<and>
   answer_too_short stub_slow (u ''q'') [u ''c''] 0 \<and>
   answer_too_short stub_slow (u ''q'') [u ''c''] 1 \<and>
   t5_generate stub_slow 2 (input_text (u ''q'') [u ''c'']) =
     Some (u ''the answer is in the context'') \<and>
   generate_fluent_answer stub_slow (u ''q'') [u ''c''] 5 0 =
     (u ''The answer is in the context.'', 3) \<and>
   generate_fluent_answer stub_short (u ''q'') [u ''c''] 3 0 = (apology_failed, 4)"
proof -
  have ne: "[u ''c''] \<noteq> []"
    by simp
  have slow: "answer_too_short stub_slow (u ''q'') [u ''c''] k" if "k < 2" for k
    using that
    by (simp add: answer_too_short_def stub_slow_def stub_def post_process_answer_def
        post_process_steps_def on_str_def collapse_whitespace_def drop_fragments_def
        capitalise_first_def ensure_terminal_def string_defs)
  have slow_all: "\<forall>k<2. answer_too_short stub_slow (u ''q'') [u ''c''] (0 + k)"
    using slow by simp
  have third: "t5_generate stub_slow 2 (input_text (u ''q'') [u ''c'']) =
      Some (u ''the answer is in the context'')"
    by (simp add: stub_slow_def stub_def)
  have third': "t5_generate stub_slow (0 + 2) (input_text (u ''q'') [u ''c'']) =
      Some (u ''the answer is in the context'')"
    by (simp add: stub_slow_def stub_def)
  have processed: "post_process_answer stub_slow (PyStr (u ''the answer is in the context'')) =
      PyStr (u ''The answer is in the context.'')"
    by (simp add: post_process_answer_def post_process_steps_def on_str_def stub_slow_def
        stub_def collapse_whitespace_def drop_fragments_def capitalise_first_def
        ensure_terminal_def string_defs)
  have long: "\<not> word_count (u ''The answer is in the context.'') < 5"
    by (simp add: string_defs)
  have room: "(2 :: nat) \<le> 5"
    by simp
  have short_all: "\<forall>k\<le>3. answer_too_short stub_short (u ''q'') [u ''c''] (0 + k)"
    by (simp add: stub_short_always)
  from retry_bounded_only_by_stack [OF ne, of 2 stub_slow "u ''q''" 0 5
      "u ''the answer is in the context''" "u ''The answer is in the context.''"]
    slow_all room third' processed long
  have accepted: "generate_fluent_answer stub_slow (u ''q'') [u ''c''] 5 0 =
      (u ''The answer is in the context.'', 3)"
    by simp
  from retry_bounded_only_by_stack [OF ne, of 0 stub_short "u ''q''" 0 3]
    short_all
  have exhausted: "generate_fluent_answer stub_short (u ''q'') [u ''c''] 3 0 =
      (apology_failed, 4)"
    by simp
  have first: "answer_too_short stub_slow (u ''q'') [u ''c''] 0"
    by (rule slow) simp
  have second: "answer_too_short stub_slow (u ''q'') [u ''c''] 1"
    by (rule slow) simp
  from ne first second third accepted exhausted show ?thesis
    by (intro conjI)
qed

end
